theory Spec2Isabelle
  imports Complex_Main "HOL-Library.Multiset"
begin

section \<open>Numbers\<close>

text \<open>
  The program is JavaScript; its numbers are IEEE doubles. Finite numbers are modelled as
  exact reals (rounding is not modelled). The results of a division, which can leave the
  finite numbers, are modelled by \<open>jsnum\<close>: \<open>x / 0\<close> is \<open>Infinity\<close>, \<open>-Infinity\<close> or
  \<open>NaN\<close> (zero is taken as positive zero).
\<close>

datatype jsnum = Num real | PosInf | NegInf | NaN

definition js_div :: "real \<Rightarrow> real \<Rightarrow> jsnum" where
  "js_div a b =
     (if b \<noteq> 0 then Num (a / b)
      else if 0 < a then PosInf
      else if a < 0 then NegInf
      else NaN)"

text \<open>\<open>x >= y\<close> for a division result \<open>x\<close> and a finite \<open>y\<close>: false on \<open>NaN\<close>.\<close>

fun js_ge :: "jsnum \<Rightarrow> real \<Rightarrow> bool" where
  "js_ge (Num r) y = (y \<le> r)"
| "js_ge PosInf y = True"
| "js_ge NegInf y = False"
| "js_ge NaN y = False"

section \<open>Data model\<close>

record Box =
  box_left :: real
  box_top :: real
  box_width :: real
  box_height :: real

record GroupingConfig =
  VERTICAL_THRESHOLD_RATIO :: real
  HORIZONTAL_THRESHOLD_RATIO :: real
  MIN_OVERLAP_RATIO :: real
  MAX_VERTICAL_OFFSET_RATIO :: real

text \<open>\<open>DEFAULT_CONFIG.GROUPING\<close>.\<close>

definition DEFAULT_GROUPING :: GroupingConfig where
  "DEFAULT_GROUPING =
     \<lparr> VERTICAL_THRESHOLD_RATIO = 1.2,
       HORIZONTAL_THRESHOLD_RATIO = 2.5,
       MIN_OVERLAP_RATIO = 0.3,
       MAX_VERTICAL_OFFSET_RATIO = 0.5 \<rparr>"

text \<open>JavaScript strings are sequences of UTF-16 code units.\<close>

type_synonym jsstring = "nat list"

type_synonym polygon = "(real \<times> real) list"

record TextElement =
  el_text :: jsstring
  el_confidence :: jsnum
  el_frame :: Box
  el_box :: polygon

section \<open>Text grouping functions\<close>

record Distance =
  horizontal :: real
  vertical :: real
  euclidean :: real

definition calculateDistance :: "Box \<Rightarrow> Box \<Rightarrow> Distance" where
  "calculateDistance box1 box2 =
     (let c1x = box_left box1 + box_width box1 / 2;
          c1y = box_top box1 + box_height box1 / 2;
          c2x = box_left box2 + box_width box2 / 2;
          c2y = box_top box2 + box_height box2 / 2
      in \<lparr> horizontal = \<bar>c1x - c2x\<bar>,
           vertical = \<bar>c1y - c2y\<bar>,
           euclidean = sqrt ((c1x - c2x)\<^sup>2 + (c1y - c2y)\<^sup>2) \<rparr>)"

definition boxesOverlapVertically :: "Box \<Rightarrow> Box \<Rightarrow> jsnum" where
  "boxesOverlapVertically box1 box2 =
     (let top1 = box_top box1;
          bottom1 = box_top box1 + box_height box1;
          top2 = box_top box2;
          bottom2 = box_top box2 + box_height box2;
          overlapTop = max top1 top2;
          overlapBottom = min bottom1 bottom2;
          overlap = max 0 (overlapBottom - overlapTop);
          minHeight = min (box_height box1) (box_height box2)
      in js_div overlap minHeight)"

definition areOnSameLine :: "Box \<Rightarrow> Box \<Rightarrow> GroupingConfig \<Rightarrow> bool" where
  "areOnSameLine box1 box2 config =
     (let overlapRatio = boxesOverlapVertically box1 box2;
          verticalOffset =
            \<bar>(box_top box1 + box_height box1 / 2) - (box_top box2 + box_height box2 / 2)\<bar>;
          avgHeight = (box_height box1 + box_height box2) / 2
      in js_ge overlapRatio (MIN_OVERLAP_RATIO config) \<or>
         verticalOffset < avgHeight * MAX_VERTICAL_OFFSET_RATIO config)"

definition shouldGroup :: "Box \<Rightarrow> Box \<Rightarrow> real \<Rightarrow> GroupingConfig \<Rightarrow> bool" where
  "shouldGroup box1 box2 avgHeight config =
     (let distance = calculateDistance box1 box2 in
      if areOnSameLine box1 box2 config then
        (let maxHorizontalGap = avgHeight * HORIZONTAL_THRESHOLD_RATIO config;
             isRightOf = box_left box2 > box_left box1
         in isRightOf \<and> horizontal distance < maxHorizontalGap)
      else
        (let maxVerticalGap = avgHeight * VERTICAL_THRESHOLD_RATIO config;
             horizontalOverlap =
               min (box_left box1 + box_width box1) (box_left box2 + box_width box2)
                 - max (box_left box1) (box_left box2);
             isBelow = box_top box2 > box_top box1;
             hasHorizontalOverlap = horizontalOverlap > 0
         in isBelow \<and> vertical distance < maxVerticalGap \<and> hasHorizontalOverlap))"

text \<open>The mean frame height of \<open>groupTextElements\<close>:
  \<open>elements.reduce((sum, el) => sum + el.frame.height, 0) / elements.length\<close>.\<close>

definition avgHeightOf :: "TextElement list \<Rightarrow> real" where
  "avgHeightOf elements =
     foldl (\<lambda>sum el. sum + box_height (el_frame el)) 0 elements / real (length elements)"

text \<open>
  \<open>Array.prototype.sort(comparefn)\<close> is a built-in of the language, not code of the
  program. It is stable, it places \<open>a\<close> before \<open>b\<close> when \<open>comparefn(a, b) < 0\<close>, and its
  result is a permutation of the array. It is modelled by the stable insertion sort;
  for a comparator that is not a consistent ordering the language leaves the order to
  the implementation, and the model fixes this one.
\<close>

fun insert_by :: "('a \<Rightarrow> 'a \<Rightarrow> real) \<Rightarrow> 'a \<Rightarrow> 'a list \<Rightarrow> 'a list" where
  "insert_by cmp x [] = [x]"
| "insert_by cmp x (y # ys) = (if cmp x y \<le> 0 then x # y # ys else y # insert_by cmp x ys)"

definition js_sort :: "('a \<Rightarrow> 'a \<Rightarrow> real) \<Rightarrow> 'a list \<Rightarrow> 'a list" where
  "js_sort cmp xs = foldr (insert_by cmp) xs []"

text \<open>The comparator of both sorts in \<open>groupTextElements\<close>, on the two frames.\<close>

definition compareReadingOrder :: "real \<Rightarrow> Box \<Rightarrow> Box \<Rightarrow> real" where
  "compareReadingOrder avgHeight a b =
     (let verticalDiff = box_top a - box_top b in
      if \<bar>verticalDiff\<bar> < avgHeight * 0.5 then box_left a - box_left b
      else verticalDiff)"

text \<open>The loop over \<open>groupIdx of group\<close>: does some member of the group accept \<open>j\<close>?\<close>

definition memberAccepts ::
  "TextElement list \<Rightarrow> real \<Rightarrow> GroupingConfig \<Rightarrow> nat list \<Rightarrow> nat \<Rightarrow> bool" where
  "memberAccepts sorted' avgHeight config group' j =
     list_ex (\<lambda>groupIdx.
        shouldGroup (el_frame (sorted' ! groupIdx)) (el_frame (sorted' ! j)) avgHeight config) group'"

text \<open>One pass of the loop over \<open>j\<close>: the first index not yet used that a member accepts.\<close>

definition scanUngrouped ::
  "TextElement list \<Rightarrow> real \<Rightarrow> GroupingConfig \<Rightarrow> nat set \<Rightarrow> nat list \<Rightarrow> nat option" where
  "scanUngrouped sorted' avgHeight config used group' =
     find (\<lambda>j. j \<notin> used \<and> memberAccepts sorted' avgHeight config group' j) [0..<length sorted']"

lemma scanUngrouped_Some:
  assumes "scanUngrouped sorted' avgHeight config used group' = Some j"
  shows "j < length sorted'" and "j \<notin> used"
    and "memberAccepts sorted' avgHeight config group' j"
  using assms unfolding scanUngrouped_def find_Some_iff by auto

text \<open>The loop \<open>while (changed)\<close>: every pass adds the index found, until a pass finds none.\<close>

function growGroup ::
  "TextElement list \<Rightarrow> real \<Rightarrow> GroupingConfig \<Rightarrow> nat set \<Rightarrow> nat list \<Rightarrow> nat set \<times> nat list" where
  "growGroup sorted' avgHeight config used group' =
     (case scanUngrouped sorted' avgHeight config used group' of
        None \<Rightarrow> (used, group')
      | Some j \<Rightarrow> growGroup sorted' avgHeight config (insert j used) (group' @ [j]))"
  by pat_completeness auto
termination
proof (relation "measure (\<lambda>(sorted', avgHeight, config, used, group'). card ({..<length sorted'} - used))")
  show "wf (measure (\<lambda>(sorted', avgHeight, config, used, group'). card ({..<length sorted'} - used)))"
    by simp
next
  fix sorted' :: "TextElement list" and avgHeight :: real and config :: GroupingConfig
    and used :: "nat set" and group' :: "nat list" and j :: nat
  assume "scanUngrouped sorted' avgHeight config used group' = Some j"
  then have "j < length sorted'" and "j \<notin> used"
    by (rule scanUngrouped_Some)+
  then have "{..<length sorted'} - insert j used \<subset> {..<length sorted'} - used"
    by auto
  then have "card ({..<length sorted'} - insert j used) < card ({..<length sorted'} - used)"
    by (intro psubset_card_mono) auto
  then show "((sorted', avgHeight, config, insert j used, group' @ [j]),
              (sorted', avgHeight, config, used, group'))
             \<in> measure (\<lambda>(sorted', avgHeight, config, used, group'). card ({..<length sorted'} - used))"
    by simp
qed

text \<open>The loop over \<open>i\<close>, with the set \<open>used\<close> and the array \<open>groups\<close> as state.\<close>

fun groupLoop ::
  "TextElement list \<Rightarrow> real \<Rightarrow> GroupingConfig \<Rightarrow> nat list \<Rightarrow> nat set \<Rightarrow>
   TextElement list list \<Rightarrow> TextElement list list" where
  "groupLoop sorted' avgHeight config [] used groups = groups"
| "groupLoop sorted' avgHeight config (i # rest) used groups =
     (if i \<in> used then groupLoop sorted' avgHeight config rest used groups
      else
        (case growGroup sorted' avgHeight config (insert i used) [i] of
           (used', group') \<Rightarrow>
             (let ordered = js_sort (\<lambda>a b. compareReadingOrder avgHeight
                                       (el_frame (sorted' ! a)) (el_frame (sorted' ! b))) group'
              in groupLoop sorted' avgHeight config rest used'
                   (groups @ [map (\<lambda>idx. sorted' ! idx) ordered]))))"

definition groupTextElements :: "TextElement list \<Rightarrow> GroupingConfig \<Rightarrow> TextElement list list" where
  "groupTextElements elements config =
     (if length elements = 0 then []
      else
        (let avgHeight = avgHeightOf elements;
             sorted' = js_sort (\<lambda>a b. compareReadingOrder avgHeight (el_frame a) (el_frame b))
                        elements
         in groupLoop sorted' avgHeight config [0..<length sorted'] {} []))"

section \<open>Detection model\<close>

text \<open>The rotated rectangle that \<open>cv.minAreaRect\<close> returns (a function of the vision
  library; its result is an input of the model).\<close>

record RotatedRect =
  center_x :: real
  center_y :: real
  size_width :: real
  size_height :: real
  angle :: real

definition boxPoints :: "RotatedRect \<Rightarrow> polygon" where
  "boxPoints rotatedRect =
     (let angle' = angle rotatedRect * pi / 180;
          b = cos angle' * 0.5;
          a = sin angle' * 0.5;
          cx = center_x rotatedRect; cy = center_y rotatedRect;
          w = size_width rotatedRect; h = size_height rotatedRect
      in [(cx - a * h - b * w, cy + b * h - a * w),
          (cx + a * h - b * w, cy - b * h - a * w),
          (cx + a * h + b * w, cy - b * h + a * w),
          (cx - a * h + b * w, cy + b * h + a * w)])"

record MiniBox =
  mb_points :: polygon
  mb_sside :: real

text \<open>\<open>getMiniBoxes\<close>, from the rectangle \<open>boundingBox = cv.minAreaRect(contour)\<close> on.\<close>

definition getMiniBoxes :: "RotatedRect \<Rightarrow> MiniBox" where
  "getMiniBoxes boundingBox =
     (let points = js_sort (\<lambda>a b. fst a - fst b) (boxPoints boundingBox);
          (index_1, index_4) = (if snd (points ! 1) > snd (points ! 0) then (0, 1) else (1, 0));
          (index_2, index_3) = (if snd (points ! 3) > snd (points ! 2) then (2, 3) else (3, 2));
          box = [points ! index_1, points ! index_2, points ! index_3, points ! index_4]
      in \<lparr> mb_points = box,
           mb_sside = min (size_height boundingBox) (size_width boundingBox) \<rparr>)"

definition polygonPolygonArea :: "polygon \<Rightarrow> real" where
  "polygonPolygonArea polygon =
     \<bar>foldl (\<lambda>area i.
        (let j = (i + 1) mod length polygon
         in area + (fst (polygon ! i) * snd (polygon ! j) - fst (polygon ! j) * snd (polygon ! i))))
       0 [0..<length polygon]\<bar> / 2"

definition polygonPolygonLength :: "polygon \<Rightarrow> real" where
  "polygonPolygonLength polygon =
     foldl (\<lambda>len i.
        (let j = (i + 1) mod length polygon
         in len + sqrt ((fst (polygon ! j) - fst (polygon ! i))\<^sup>2
                        + (snd (polygon ! j) - snd (polygon ! i))\<^sup>2)))
       0 [0..<length polygon]"

text \<open>The offset distance of \<open>unclip\<close>, \<open>(area * unclip_ratio) / length\<close>.\<close>

definition unclipDistance :: "polygon \<Rightarrow> real \<Rightarrow> jsnum" where
  "unclipDistance box unclip_ratio =
     (let area = \<bar>polygonPolygonArea box\<bar>;
          len = polygonPolygonLength box
      in js_div (area * unclip_ratio) len)"

text \<open>\<open>unclip\<close>. The polygon offset of the clipper library (\<open>AddPath\<close> with round joins,
  then \<open>Execute\<close>) is the parameter \<open>offsetExecute\<close>, from the path and the distance to
  the expanded paths.\<close>

definition unclip :: "(polygon \<Rightarrow> jsnum \<Rightarrow> polygon list) \<Rightarrow> polygon \<Rightarrow> real \<Rightarrow> real list" where
  "unclip offsetExecute box unclip_ratio =
     (let distance = unclipDistance box unclip_ratio;
          expanded = offsetExecute box distance
      in case expanded of
           [] \<Rightarrow> []
         | first # _ \<Rightarrow> concat (map (\<lambda>(x, y). [x, y]) first))"

text \<open>The fields of a \<open>Detection\<close> object that the size gate and \<open>unclip\<close> read.\<close>

record Detection =
  minSize :: real
  maxSize :: real
  unclipRatio :: real

text \<open>\<open>DEFAULT_CONFIG.DETECTION\<close>: \<open>MIN_BOX_SIZE\<close>, \<open>MAX_BOX_SIZE\<close>, \<open>UNCLIP_RATIO\<close>.\<close>

definition DEFAULT_DETECTION :: Detection where
  "DEFAULT_DETECTION = \<lparr> minSize = 3, maxSize = 2000, unclipRatio = 1.5 \<rparr>"

text \<open>
  The head of the loop body of \<open>splitIntoLineImages\<close>, for a contour with the bounding
  rectangle \<open>boundingBox\<close>: \<open>None\<close> when the size gate skips the contour (\<open>continue\<close>), else
  the clip box that \<open>unclip\<close> returns, with the offset distance it computed.
\<close>

definition unclipStep ::
  "Detection \<Rightarrow> (polygon \<Rightarrow> jsnum \<Rightarrow> polygon list) \<Rightarrow> RotatedRect \<Rightarrow> (jsnum \<times> real list) option" where
  "unclipStep self offsetExecute boundingBox =
     (let mb = getMiniBoxes boundingBox in
      if mb_sside mb < minSize self \<or> mb_sside mb > maxSize self then None
      else Some (unclipDistance (mb_points mb) (unclipRatio self),
                 unclip offsetExecute (mb_points mb) (unclipRatio self)))"

section \<open>Recognition model\<close>

text \<open>An array read \<open>xs[i]\<close>: \<open>None\<close> is \<open>undefined\<close>, the value of a read outside the array.\<close>

definition js_index :: "'a list \<Rightarrow> int \<Rightarrow> 'a option" where
  "js_index xs i = (if 0 \<le> i \<and> i < int (length xs) then Some (xs ! nat i) else None)"

text \<open>The fields of a \<open>Recognition\<close> object that the decoder and \<open>run\<close> read.\<close>

record Recognition =
  dictionary :: "jsstring list"
  confidenceThreshold :: real
  removeDuplicateChars :: bool

text \<open>\<open>DEFAULT_CONFIG.RECOGNITION.IGNORED_TOKENS\<close>.\<close>

definition IGNORED_TOKENS :: "int list" where
  "IGNORED_TOKENS = [0]"

text \<open>The result of \<open>decode\<close>, \<open>{ text, mean }\<close>.\<close>

record Line =
  line_text :: jsstring
  line_mean :: jsnum

text \<open>
  The white space that the class \<open>\s\<close> of regular expressions and \<open>trim\<close> recognise:
  tab, line feed, vertical tab, form feed, carriage return, space, no-break space, the
  Unicode space separators, the line and paragraph separators and the byte order mark.
\<close>

definition is_whitespace :: "nat \<Rightarrow> bool" where
  "is_whitespace c \<longleftrightarrow>
     c \<in> {9, 10, 11, 12, 13, 32, 160, 5760, 8232, 8233, 8239, 8287, 12288, 65279}
     \<or> (8192 \<le> c \<and> c \<le> 8202)"

text \<open>\<open>.replace(/\r/g, '')\<close>: every carriage return is removed.\<close>

definition removeCarriageReturns :: "jsstring \<Rightarrow> jsstring" where
  "removeCarriageReturns s = filter (\<lambda>c. c \<noteq> 13) s"

text \<open>\<open>.replace(/\s+/g, ' ')\<close>: every run of white space becomes one space.\<close>

function collapseWhitespace :: "jsstring \<Rightarrow> jsstring" where
  "collapseWhitespace [] = []"
| "collapseWhitespace (c # cs) =
     (if is_whitespace c then 32 # collapseWhitespace (dropWhile is_whitespace cs)
      else c # collapseWhitespace cs)"
  by pat_completeness auto
termination
  by (relation "measure length") (auto simp: length_dropWhile_le less_Suc_eq_le)

definition trim :: "jsstring \<Rightarrow> jsstring" where
  "trim s = rev (dropWhile is_whitespace (rev (dropWhile is_whitespace s)))"

text \<open>
  The loop of \<open>decode\<close> over \<open>idx\<close>, with \<open>charList\<close> and \<open>confList\<close> as state. A dictionary
  entry is used when it is truthy: defined and not the empty string.
\<close>

function decodeLoop ::
  "Recognition \<Rightarrow> int list \<Rightarrow> real list \<Rightarrow> nat \<Rightarrow> jsstring list \<times> real option list \<Rightarrow>
   jsstring list \<times> real option list" where
  "decodeLoop self textIndex textProb idx (charList, confList) =
     (if idx < length textIndex then
        (if textIndex ! idx \<in> set IGNORED_TOKENS then
           decodeLoop self textIndex textProb (idx + 1) (charList, confList)
         else if removeDuplicateChars self \<and> idx > 0 \<and> textIndex ! (idx - 1) = textIndex ! idx
         then decodeLoop self textIndex textProb (idx + 1) (charList, confList)
         else
           (case js_index (dictionary self) (textIndex ! idx - 1) of
              None \<Rightarrow> decodeLoop self textIndex textProb (idx + 1) (charList, confList)
            | Some char \<Rightarrow>
                if char \<noteq> [] then
                  decodeLoop self textIndex textProb (idx + 1)
                    (charList @ [char], confList @ [js_index textProb (int idx)])
                else decodeLoop self textIndex textProb (idx + 1) (charList, confList)))
      else (charList, confList))"
  by pat_completeness auto
termination
  by (relation "measure (\<lambda>(self, textIndex, textProb, idx, acc). length textIndex - idx)") auto

declare decodeLoop.simps [simp del]

text \<open>
  \<open>confList.length ? confList.reduce((a, b) => a + b) / confList.length : 0\<close>. A sum
  with an \<open>undefined\<close> term is \<open>NaN\<close>.
\<close>

definition meanOf :: "real option list \<Rightarrow> jsnum" where
  "meanOf confList =
     (if length confList \<noteq> 0 then
        (case those confList of
           None \<Rightarrow> NaN
         | Some probs \<Rightarrow> js_div (foldl (+) (hd probs) (tl probs)) (real (length confList)))
      else Num 0)"

definition decode :: "Recognition \<Rightarrow> int list \<Rightarrow> real list \<Rightarrow> Line" where
  "decode self textIndex textProb =
     (case decodeLoop self textIndex textProb 0 ([], []) of
        (charList, confList) \<Rightarrow>
          \<lparr> line_text = trim (collapseWhitespace (removeCarriageReturns (concat charList))),
            line_mean = meanOf confList \<rparr>)"

text \<open>A tensor of the inference engine: its flat data and its shape.\<close>

record Tensor =
  tensor_data :: "real list"
  tensor_dims :: "nat list"

text \<open>\<open>xs.slice(i, j)\<close> for \<open>0 \<le> i \<le> j\<close>.\<close>

definition slice :: "'a list \<Rightarrow> nat \<Rightarrow> nat \<Rightarrow> 'a list" where
  "slice xs i j = take (j - i) (drop i xs)"

text \<open>\<open>Math.max(...xs)\<close> and \<open>Math.min(...xs)\<close> of a non-empty array. (Of an empty array they
  are \<open>-Infinity\<close> and \<open>Infinity\<close>; the program takes them of non-empty arrays only, and the
  model leaves the empty case unspecified.)\<close>

fun Math_max :: "real list \<Rightarrow> real" where
  "Math_max (x # xs) = fold max xs x"

fun Math_min :: "real list \<Rightarrow> real" where
  "Math_min (x # xs) = fold min xs x"

text \<open>\<open>xs.indexOf(v)\<close>: the first index of \<open>v\<close>, or \<open>-1\<close>.\<close>

fun indexOf :: "'a list \<Rightarrow> 'a \<Rightarrow> int" where
  "indexOf [] v = -1"
| "indexOf (x # xs) v =
     (if x = v then 0 else (let r = indexOf xs v in if r < 0 then -1 else r + 1))"

text \<open>The body of the inner loop of \<open>decodeText\<close>: the class and the probability of the
  timestep that starts at \<open>i\<close>.\<close>

definition argmaxAt :: "real list \<Rightarrow> nat \<Rightarrow> nat \<Rightarrow> int \<times> real" where
  "argmaxAt d predLen i =
     (let tmpArr = slice d i (i + predLen);
          tmpMax = Math_max tmpArr
      in (indexOf tmpArr tmpMax, tmpMax))"

text \<open>The values of \<open>i\<close> in \<open>for (let i = l; i < l + predLen * T; i += predLen)\<close>: none
  when \<open>predLen\<close> is 0, else the \<open>T\<close> starts \<open>l, l + predLen, ...\<close>.\<close>

definition timestepStarts :: "nat \<Rightarrow> nat \<Rightarrow> nat \<Rightarrow> nat list" where
  "timestepStarts l predLen T = (if predLen = 0 then [] else map (\<lambda>k. l + k * predLen) [0..<T])"

text \<open>The inner loop: \<open>predsIdx\<close> and \<open>predsProb\<close>, as a list of pairs.\<close>

definition predsOf :: "real list \<Rightarrow> nat \<Rightarrow> nat \<Rightarrow> nat \<Rightarrow> (int \<times> real) list" where
  "predsOf d predLen T l = map (argmaxAt d predLen) (timestepStarts l predLen T)"

text \<open>
  The outer loop of \<open>decodeText\<close>, \<open>for (let l = data.length - predLen * T, ml = 0; l >= 0;
  l -= predLen * T, ml++)\<close>, from the last batch to the first; \<open>line[ml] = ...\<close> appends,
  since \<open>ml\<close> is the length of \<open>line\<close>. With \<open>predLen * T = 0\<close> the loop does not end:
  the result \<open>None\<close> stands for a call that does not return.
\<close>

partial_function (option) decodeTextLoop ::
  "Recognition \<Rightarrow> real list \<Rightarrow> nat \<Rightarrow> nat \<Rightarrow> int \<Rightarrow> Line list \<Rightarrow> Line list option" where
  "decodeTextLoop self d predLen T l line =
     (if 0 \<le> l then
        decodeTextLoop self d predLen T (l - int (predLen * T))
          (line @ [decode self (map fst (predsOf d predLen T (nat l)))
                               (map snd (predsOf d predLen T (nat l)))])
      else Some line)"

text \<open>\<open>decodeText\<close>. When \<open>output.dims\<close> has no index 1 or 2 the start value of \<open>l\<close> is
  \<open>NaN\<close> and the loop body never runs.\<close>

definition decodeText :: "Recognition \<Rightarrow> Tensor \<Rightarrow> Line list option" where
  "decodeText self output =
     (case (js_index (tensor_dims output) 1, js_index (tensor_dims output) 2) of
        (Some T, Some predLen) \<Rightarrow>
          decodeTextLoop self (tensor_data output) predLen T
            (int (length (tensor_data output)) - int (predLen * T)) []
      | _ \<Rightarrow> Some [])"

text \<open>A line image of the detection stage: the polygon and the crop.\<close>

record 'img LineImage =
  li_box :: polygon
  li_image :: 'img

text \<open>An entry of the result of \<open>Recognition.run\<close>: \<open>{ text, mean, box }\<close>.\<close>

record Recognized =
  rec_text :: jsstring
  rec_mean :: jsnum
  rec_box :: polygon

datatype error = TypeError

text \<open>
  The loop of \<open>run\<close> over the model inputs. The inference engine with the resizing of
  the crop before it is the parameter \<open>infer\<close>, from a crop to its output tensor.
  \<open>allLines.unshift(...lines)\<close> puts the lines in front.
\<close>

fun runLoop ::
  "Recognition \<Rightarrow> ('img \<Rightarrow> Tensor) \<Rightarrow> 'img LineImage list \<Rightarrow> Line list \<Rightarrow> Line list option" where
  "runLoop self infer [] allLines = Some allLines"
| "runLoop self infer (li # rest) allLines =
     (case decodeText self (infer (li_image li)) of
        None \<Rightarrow> None
      | Some lines \<Rightarrow> runLoop self infer rest (lines @ allLines))"

text \<open>\<open>allLines.map((line, i) => ({ ...line, box: lineImages[allLines.length - i - 1].box }))\<close>
  over the indices \<open>i\<close>; reading \<open>.box\<close> of \<open>undefined\<close> throws a \<open>TypeError\<close>.\<close>

fun attachBoxes :: "'img LineImage list \<Rightarrow> Line list \<Rightarrow> nat list \<Rightarrow> error + Recognized list" where
  "attachBoxes lineImages allLines [] = Inr []"
| "attachBoxes lineImages allLines (i # rest) =
     (case js_index lineImages (int (length allLines) - int i - 1) of
        None \<Rightarrow> Inl TypeError
      | Some li \<Rightarrow>
          (case attachBoxes lineImages allLines rest of
             Inl e \<Rightarrow> Inl e
           | Inr xs \<Rightarrow>
               Inr (\<lparr> rec_text = line_text (allLines ! i), rec_mean = line_mean (allLines ! i),
                      rec_box = li_box li \<rparr> # xs)))"

text \<open>\<open>Recognition.run\<close> before its final \<open>filter\<close>, and \<open>Recognition.run\<close>.\<close>

definition runUnfiltered ::
  "Recognition \<Rightarrow> ('img \<Rightarrow> Tensor) \<Rightarrow> 'img LineImage list \<Rightarrow> (error + Recognized list) option" where
  "runUnfiltered self infer lineImages =
     (case runLoop self infer lineImages [] of
        None \<Rightarrow> None
      | Some allLines \<Rightarrow> Some (attachBoxes lineImages allLines [0..<length allLines]))"

definition run ::
  "Recognition \<Rightarrow> ('img \<Rightarrow> Tensor) \<Rightarrow> 'img LineImage list \<Rightarrow> (error + Recognized list) option" where
  "run self infer lineImages =
     (case runUnfiltered self infer lineImages of
        None \<Rightarrow> None
      | Some (Inl e) \<Rightarrow> Some (Inl e)
      | Some (Inr xs) \<Rightarrow> Some (Inr (filter (\<lambda>x. js_ge (rec_mean x) (confidenceThreshold self)) xs)))"

section \<open>The main class\<close>

text \<open>\<open>Math.round\<close>: to the nearest integer, halves upwards.\<close>

definition Math_round :: "real \<Rightarrow> real" where
  "Math_round x = of_int \<lfloor>x + 1 / 2\<rfloor>"

definition extractFrameFromBox :: "polygon \<Rightarrow> Box" where
  "extractFrameFromBox box =
     (if length box = 0 then \<lparr> box_left = 0, box_top = 0, box_width = 0, box_height = 0 \<rparr>
      else
        (let xs = map fst box; ys = map snd box
         in \<lparr> box_left = Math_round (Math_min xs),
              box_top = Math_round (Math_min ys),
              box_width = Math_round (Math_max xs - Math_min xs),
              box_height = Math_round (Math_max ys - Math_min ys) \<rparr>))"

text \<open>The elements of \<open>Ocr.detect\<close>, from the result of \<open>Recognition.run\<close>: the entries with
  a text that is not blank, each with its frame.\<close>

definition individualElements :: "Recognized list \<Rightarrow> TextElement list" where
  "individualElements texts =
     map (\<lambda>item. \<lparr> el_text = trim (rec_text item), el_confidence = rec_mean item,
                   el_frame = extractFrameFromBox (rec_box item), el_box = rec_box item \<rparr>)
       (filter (\<lambda>item. rec_text item \<noteq> [] \<and> length (trim (rec_text item)) > 0) texts)"

text \<open>The field \<open>data\<close> of the result of \<open>Ocr.detect\<close>, for the line images that the
  detection stage returned.\<close>

definition detectData ::
  "Recognition \<Rightarrow> ('img \<Rightarrow> Tensor) \<Rightarrow> 'img LineImage list \<Rightarrow> (error + TextElement list) option" where
  "detectData self infer lineImages =
     (case run self infer lineImages of
        None \<Rightarrow> None
      | Some (Inl e) \<Rightarrow> Some (Inl e)
      | Some (Inr texts) \<Rightarrow> Some (Inr (individualElements texts)))"

section \<open>Notions used in the statements\<close>

text \<open>A tensor of one batch: shape \<open>[1, T, V]\<close> with \<open>T\<close> timesteps over \<open>V\<close> classes, and
  \<open>T * V\<close> numbers.\<close>

definition is_batch1 :: "Tensor \<Rightarrow> bool" where
  "is_batch1 output \<longleftrightarrow>
     (case tensor_dims output of
        [b, T, V] \<Rightarrow> b = 1 \<and> 0 < T \<and> 0 < V \<and> length (tensor_data output) = T * V
      | _ \<Rightarrow> False)"

text \<open>The line of a tensor of one batch: the decoding of its \<open>T\<close> classes of greatest
  probability.\<close>

definition decodeSingle :: "Recognition \<Rightarrow> Tensor \<Rightarrow> Line" where
  "decodeSingle self output =
     decode self
       (map fst (predsOf (tensor_data output) (tensor_dims output ! 2) (tensor_dims output ! 1) 0))
       (map snd (predsOf (tensor_data output) (tensor_dims output ! 2) (tensor_dims output ! 1) 0))"

text \<open>The timesteps that contribute a character: not ignored, not equal to the class
  of the timestep just before (when duplicates are removed), and with a truthy
  dictionary entry at \<open>class - 1\<close>.\<close>

definition survives :: "Recognition \<Rightarrow> int list \<Rightarrow> nat \<Rightarrow> bool" where
  "survives self textIndex idx \<longleftrightarrow>
     textIndex ! idx \<notin> set IGNORED_TOKENS \<and>
     \<not> (removeDuplicateChars self \<and> 0 < idx \<and> textIndex ! (idx - 1) = textIndex ! idx) \<and>
     (case js_index (dictionary self) (textIndex ! idx - 1) of
        None \<Rightarrow> False
      | Some char \<Rightarrow> char \<noteq> [])"

definition survivors :: "Recognition \<Rightarrow> int list \<Rightarrow> nat list" where
  "survivors self textIndex = filter (survives self textIndex) [0..<length textIndex]"

text \<open>The entry that \<open>run\<close> should build for a line image: the decoding of its own
  tensor with its own box.\<close>

definition recognizedOf :: "Recognition \<Rightarrow> ('img \<Rightarrow> Tensor) \<Rightarrow> 'img LineImage \<Rightarrow> Recognized" where
  "recognizedOf self infer li =
     \<lparr> rec_text = line_text (decodeSingle self (infer (li_image li))),
       rec_mean = line_mean (decodeSingle self (infer (li_image li))),
       rec_box = li_box li \<rparr>"

section \<open>Concrete inputs\<close>

definition element :: "nat \<Rightarrow> real \<Rightarrow> real \<Rightarrow> real \<Rightarrow> real \<Rightarrow> TextElement" where
  "element c l t w h =
     \<lparr> el_text = [c], el_confidence = Num 1,
       el_frame = \<lparr> box_left = l, box_top = t, box_width = w, box_height = h \<rparr>,
       el_box = [(l, t), (l + w, t), (l + w, t + h), (l, t + h)] \<rparr>"

definition sampleRecognition :: Recognition where
  "sampleRecognition =
     \<lparr> dictionary = [[97], [98], [99], [100], [65], [32], [66]],
       confidenceThreshold = 0.5, removeDuplicateChars = True \<rparr>"

definition sampleTensorBA :: Tensor where
  "sampleTensorBA =
     \<lparr> tensor_data = [0.1, 0.2, 0.7, 0.9, 0.05, 0.05, 0.1, 0.8, 0.1], tensor_dims = [1, 3, 3] \<rparr>"

definition sampleTensorA :: Tensor where
  "sampleTensorA = \<lparr> tensor_data = [0.1, 0.9, 0], tensor_dims = [1, 1, 3] \<rparr>"

definition sampleTensorBlank :: Tensor where
  "sampleTensorBlank = \<lparr> tensor_data = [0.9, 0.1, 0, 0.8, 0.1, 0.1], tensor_dims = [1, 2, 3] \<rparr>"

definition sampleInfer :: "nat \<Rightarrow> Tensor" where
  "sampleInfer n = (if n = 0 then sampleTensorBA else sampleTensorA)"

definition sampleCrops :: "nat LineImage list" where
  "sampleCrops =
     [\<lparr> li_box = [(0, 0), (10, 0), (10, 5), (0, 5)], li_image = 0 \<rparr>,
      \<lparr> li_box = [(0, 10), (10, 10), (10, 15), (0, 15)], li_image = 1 \<rparr>]"

lemmas sample_defs = sampleTensorBA_def sampleTensorA_def sampleTensorBlank_def sampleInfer_def
  sampleCrops_def sampleRecognition_def

lemmas eval_defs = is_batch1_def decodeSingle_def predsOf_def timestepStarts_def argmaxAt_def
  slice_def decode_def decodeLoop.simps IGNORED_TOKENS_def js_index_def trim_def
  removeCarriageReturns_def is_whitespace_def meanOf_def js_div_def Let_def upt_rec
  recognizedOf_def

section \<open>Properties of the sort\<close>

lemma mset_insert_by: "mset (insert_by cmp x ys) = add_mset x (mset ys)"
  by (induction ys) simp_all

lemma mset_js_sort: "mset (js_sort cmp xs) = mset xs"
  unfolding js_sort_def by (induction xs) (simp_all add: mset_insert_by)

lemma js_sort_Nil_iff: "js_sort cmp xs = [] \<longleftrightarrow> xs = []"
  using mset_js_sort [of cmp xs] by (metis mset_zero_iff)

lemma js_sort_pair: "js_sort cmp [a, b] = (if cmp a b \<le> 0 then [a, b] else [b, a])"
  by (simp add: js_sort_def)

section \<open>The adjacency test\<close>

text \<open>
  Claim C1. The same-line test of a pair does not use the mean height of all
  elements: \<open>areOnSameLine\<close> takes the two boxes and the config only, and its threshold
  is the mean height of the pair, \<open>(box1.height + box2.height) / 2\<close>, times
  \<open>MAX_VERTICAL_OFFSET_RATIO\<close>. The mean over all elements, which \<open>shouldGroup\<close>
  receives as \<open>avgHeight\<close>, scales the horizontal and the vertical gap only.
\<close>

theorem shouldGroup_thresholds:
  "(areOnSameLine box1 box2 config \<longleftrightarrow>
      js_ge (boxesOverlapVertically box1 box2) (MIN_OVERLAP_RATIO config) \<or>
      \<bar>(box_top box1 + box_height box1 / 2) - (box_top box2 + box_height box2 / 2)\<bar>
        < (box_height box1 + box_height box2) / 2 * MAX_VERTICAL_OFFSET_RATIO config) \<and>
   shouldGroup box1 box2 avgHeight config =
     (if areOnSameLine box1 box2 config
      then box_left box1 < box_left box2 \<and>
           \<bar>(box_left box1 + box_width box1 / 2) - (box_left box2 + box_width box2 / 2)\<bar>
             < avgHeight * HORIZONTAL_THRESHOLD_RATIO config
      else box_top box1 < box_top box2 \<and>
           \<bar>(box_top box1 + box_height box1 / 2) - (box_top box2 + box_height box2 / 2)\<bar>
             < avgHeight * VERTICAL_THRESHOLD_RATIO config \<and>
           0 < min (box_left box1 + box_width box1) (box_left box2 + box_width box2)
                 - max (box_left box1) (box_left box2))"
  by (simp add: shouldGroup_def areOnSameLine_def calculateDistance_def Let_def)

text \<open>
  Two boxes of height 10 whose centres are 20 apart, beside a third element of height
  130: the mean height of the three is 50, so the threshold of the claim is 25 and the
  pair would be on one line; the code compares 20 with 10 * 0.5 and answers no.
\<close>

theorem areOnSameLine_global_average_counterexample:
  "avgHeightOf [element 65 0 0 10 10, element 66 0 20 10 10, element 67 0 100 10 130] = 50 \<and>
   \<not> (areOnSameLine (el_frame (element 65 0 0 10 10)) (el_frame (element 66 0 20 10 10))
          DEFAULT_GROUPING
        \<longleftrightarrow>
        js_ge (boxesOverlapVertically (el_frame (element 65 0 0 10 10))
                 (el_frame (element 66 0 20 10 10))) (MIN_OVERLAP_RATIO DEFAULT_GROUPING) \<or>
        \<bar>(box_top (el_frame (element 65 0 0 10 10))
             + box_height (el_frame (element 65 0 0 10 10)) / 2)
          - (box_top (el_frame (element 66 0 20 10 10))
             + box_height (el_frame (element 66 0 20 10 10)) / 2)\<bar>
          < avgHeightOf [element 65 0 0 10 10, element 66 0 20 10 10, element 67 0 100 10 130]
              * MAX_VERTICAL_OFFSET_RATIO DEFAULT_GROUPING)"
  by (simp add: areOnSameLine_def boxesOverlapVertically_def js_div_def avgHeightOf_def
      element_def DEFAULT_GROUPING_def Let_def)

theorem shouldGroup_thresholds_witness:
  "\<not> areOnSameLine (el_frame (element 65 0 0 10 10)) (el_frame (element 66 0 20 10 10))
        DEFAULT_GROUPING \<and>
   shouldGroup (el_frame (element 65 0 0 10 10)) (el_frame (element 66 0 20 10 10)) 50
     DEFAULT_GROUPING"
  using shouldGroup_thresholds [of "el_frame (element 65 0 0 10 10)"
      "el_frame (element 66 0 20 10 10)" DEFAULT_GROUPING 50]
  by (simp add: boxesOverlapVertically_def js_div_def element_def DEFAULT_GROUPING_def Let_def)

section \<open>The reading order\<close>

text \<open>
  Claim C7. The comparator of the reading-order sort treats two elements as one
  row when their top coordinates (not their vertical centres) differ by less than
  \<open>avgHeight * 0.5\<close>, and then orders them by left coordinate; otherwise it orders them
  by top coordinate. On a pair the sort places \<open>b\<close> before \<open>a\<close> exactly when that
  comparison is positive.
\<close>

theorem reading_order_compares_tops:
  "compareReadingOrder avgHeight a b =
     (if \<bar>box_top a - box_top b\<bar> < avgHeight * 0.5 then box_left a - box_left b
      else box_top a - box_top b) \<and>
   js_sort (\<lambda>x y. compareReadingOrder avgHeight (el_frame x) (el_frame y)) [ea, eb] =
     (if (if \<bar>box_top (el_frame ea) - box_top (el_frame eb)\<bar> < avgHeight * 0.5
          then box_left (el_frame ea) \<le> box_left (el_frame eb)
          else box_top (el_frame ea) \<le> box_top (el_frame eb))
      then [ea, eb] else [eb, ea])"
proof (intro conjI)
  show "compareReadingOrder avgHeight a b =
     (if \<bar>box_top a - box_top b\<bar> < avgHeight * 0.5 then box_left a - box_left b
      else box_top a - box_top b)"
    by (simp add: compareReadingOrder_def Let_def)
next
  show "js_sort (\<lambda>x y. compareReadingOrder avgHeight (el_frame x) (el_frame y)) [ea, eb] =
     (if (if \<bar>box_top (el_frame ea) - box_top (el_frame eb)\<bar> < avgHeight * 0.5
          then box_left (el_frame ea) \<le> box_left (el_frame eb)
          else box_top (el_frame ea) \<le> box_top (el_frame eb))
      then [ea, eb] else [eb, ea])"
    by (cases "\<bar>box_top (el_frame ea) - box_top (el_frame eb)\<bar> < avgHeight * 0.5")
      (simp_all only: js_sort_pair compareReadingOrder_def Let_def if_True if_False
         diff_le_0_iff_le)
qed

text \<open>
  An element at top 0 of height 10 and one at top 8 of height 40 (mean height 25,
  threshold 12.5): the centres, 5 and 28, are not within the threshold, so by centres
  the pair would be ordered by top, the first before the second. The tops are within
  it, so the code orders by left and puts the second first, and the groups come out
  in that order.
\<close>

theorem reading_order_centers_counterexample:
  "avgHeightOf [element 65 10 0 10 10, element 66 0 8 10 40] = 25 \<and>
   compareReadingOrder 25 (el_frame (element 65 10 0 10 10)) (el_frame (element 66 0 8 10 40))
     \<noteq> (if \<bar>(box_top (el_frame (element 65 10 0 10 10))
                + box_height (el_frame (element 65 10 0 10 10)) / 2)
             - (box_top (el_frame (element 66 0 8 10 40))
                + box_height (el_frame (element 66 0 8 10 40)) / 2)\<bar> < 25 * 0.5
         then box_left (el_frame (element 65 10 0 10 10))
                - box_left (el_frame (element 66 0 8 10 40))
         else box_top (el_frame (element 65 10 0 10 10))
                - box_top (el_frame (element 66 0 8 10 40))) \<and>
   groupTextElements [element 65 10 0 10 10, element 66 0 8 10 40] DEFAULT_GROUPING =
     [[element 66 0 8 10 40], [element 65 10 0 10 10]]"
  by (simp add: groupTextElements_def avgHeightOf_def js_sort_def compareReadingOrder_def
      element_def scanUngrouped_def memberAccepts_def shouldGroup_def areOnSameLine_def
      boxesOverlapVertically_def calculateDistance_def js_div_def DEFAULT_GROUPING_def Let_def)

theorem reading_order_compares_tops_witness:
  "compareReadingOrder 25 (el_frame (element 65 10 0 10 10)) (el_frame (element 66 0 8 10 40))
     = 10 \<and>
   js_sort (\<lambda>x y. compareReadingOrder 25 (el_frame x) (el_frame y))
     [element 65 10 0 10 10, element 66 0 8 10 40] =
     [element 66 0 8 10 40, element 65 10 0 10 10]"
  using reading_order_compares_tops [of 25 "el_frame (element 65 10 0 10 10)"
      "el_frame (element 66 0 8 10 40)" "element 65 10 0 10 10" "element 66 0 8 10 40"]
  by (simp add: element_def)

section \<open>Grouping\<close>

lemma mset_set_union_list:
  "finite A \<Longrightarrow> distinct xs \<Longrightarrow> set xs \<inter> A = {} \<Longrightarrow>
   mset_set (A \<union> set xs) = mset_set A + mset xs"
proof (induction xs)
  case Nil
  then show ?case by simp
next
  case (Cons x xs)
  then have "x \<notin> A \<union> set xs" and "finite (A \<union> set xs)" by auto
  then have "mset_set (insert x (A \<union> set xs)) = add_mset x (mset_set (A \<union> set xs))"
    by simp
  with Cons show ?case by simp
qed

text \<open>What the loop \<open>while (changed)\<close> returns: the group it was given, followed by
  distinct indices that were not used before, all of them now used.\<close>

lemma growGroup_result:
  "growGroup s h c used g = (used', g') \<Longrightarrow>
   \<exists>new. g' = g @ new \<and> used' = used \<union> set new \<and> distinct new \<and> set new \<inter> used = {}
      \<and> set new \<subseteq> {..<length s}"
proof (induction s h c used g rule: growGroup.induct)
  case (1 s h c used g)
  show ?case
  proof (cases "scanUngrouped s h c used g")
    case None
    with "1.prems" show ?thesis by simp
  next
    case (Some j)
    with "1.prems" have "growGroup s h c (insert j used) (g @ [j]) = (used', g')" by simp
    from "1.IH" [OF Some this] obtain new where new:
      "g' = (g @ [j]) @ new" "used' = insert j used \<union> set new" "distinct new"
      "set new \<inter> insert j used = {}" "set new \<subseteq> {..<length s}" by blast
    from Some have j: "j < length s" "j \<notin> used" by (rule scanUngrouped_Some)+
    have "g' = g @ (j # new) \<and> used' = used \<union> set (j # new) \<and> distinct (j # new) \<and>
          set (j # new) \<inter> used = {} \<and> set (j # new) \<subseteq> {..<length s}"
      using new j by auto
    then show ?thesis by blast
  qed
qed

text \<open>The invariant of the loop over \<open>i\<close>: the groups pushed so far hold exactly the
  elements at the used indices, each once.\<close>

lemma groupLoop_invariant:
  assumes "finite used" "used \<subseteq> {..<length s}" "set rest \<subseteq> {..<length s}"
    and "mset (concat groups) = image_mset ((!) s) (mset_set used)"
  shows "\<exists>used'. mset (concat (groupLoop s h c rest used groups))
             = image_mset ((!) s) (mset_set used')
           \<and> used \<union> set rest \<subseteq> used' \<and> used' \<subseteq> {..<length s}"
  using assms
proof (induction rest arbitrary: used groups)
  case Nil
  then show ?case by auto
next
  case (Cons i rest)
  show ?case
  proof (cases "i \<in> used")
    case True
    with Cons.IH [of used groups] Cons.prems show ?thesis by auto
  next
    case False
    obtain used1 g1 where gg: "growGroup s h c (insert i used) [i] = (used1, g1)"
      by (cases "growGroup s h c (insert i used) [i]")
    from growGroup_result [OF gg] obtain new where new:
      "g1 = [i] @ new" "used1 = insert i used \<union> set new" "distinct new"
      "set new \<inter> insert i used = {}" "set new \<subseteq> {..<length s}" by blast
    let ?ordered =
      "js_sort (\<lambda>a b. compareReadingOrder h (el_frame (s ! a)) (el_frame (s ! b))) g1"
    let ?groups = "groups @ [map (\<lambda>idx. s ! idx) ?ordered]"
    have step: "groupLoop s h c (i # rest) used groups = groupLoop s h c rest used1 ?groups"
      using False gg by simp
    have u1: "used1 = used \<union> set (i # new)" using new by auto
    have d: "distinct (i # new)" "set (i # new) \<inter> used = {}" using new False by auto
    have "mset_set used1 = mset_set used + mset (i # new)"
      unfolding u1 using mset_set_union_list [OF Cons.prems(1) d] .
    moreover have "mset (map (\<lambda>idx. s ! idx) ?ordered) = image_mset ((!) s) (mset g1)"
      by (simp add: mset_js_sort)
    ultimately have inv: "mset (concat ?groups) = image_mset ((!) s) (mset_set used1)"
      using Cons.prems(4) new(1) by simp
    have fin: "finite used1" using Cons.prems(1) u1 by simp
    have sub: "used1 \<subseteq> {..<length s}" using Cons.prems(2,3) new by auto
    have rest: "set rest \<subseteq> {..<length s}" using Cons.prems(3) by simp
    from Cons.IH [OF fin sub rest inv] obtain used' where
      "mset (concat (groupLoop s h c rest used1 ?groups)) = image_mset ((!) s) (mset_set used')"
      "used1 \<union> set rest \<subseteq> used'" "used' \<subseteq> {..<length s}" by blast
    with step u1 show ?thesis by auto
  qed
qed

lemma groupLoop_nonempty:
  "[] \<notin> set groups \<Longrightarrow> [] \<notin> set (groupLoop s h c rest used groups)"
proof (induction rest arbitrary: used groups)
  case Nil
  then show ?case by simp
next
  case (Cons i rest)
  show ?case
  proof (cases "i \<in> used")
    case True
    with Cons show ?thesis by simp
  next
    case False
    obtain used1 g1 where gg: "growGroup s h c (insert i used) [i] = (used1, g1)"
      by (cases "growGroup s h c (insert i used) [i]")
    let ?ordered =
      "js_sort (\<lambda>a b. compareReadingOrder h (el_frame (s ! a)) (el_frame (s ! b))) g1"
    from growGroup_result [OF gg] have "g1 \<noteq> []" by auto
    then have "map (\<lambda>idx. s ! idx) ?ordered \<noteq> []"
      by (simp add: js_sort_Nil_iff)
    with Cons.prems have "[] \<notin> set (groups @ [map (\<lambda>idx. s ! idx) ?ordered])"
      by auto
    from Cons.IH [OF this] show ?thesis using False gg by simp
  qed
qed

lemma groupLoop_all: "mset (concat (groupLoop s h c [0..<length s] {} [])) = mset s"
proof -
  have "\<exists>used'. mset (concat (groupLoop s h c [0..<length s] {} []))
             = image_mset ((!) s) (mset_set used')
           \<and> {} \<union> set [0..<length s] \<subseteq> used' \<and> used' \<subseteq> {..<length s}"
    by (rule groupLoop_invariant) auto
  then obtain used' where u:
    "mset (concat (groupLoop s h c [0..<length s] {} [])) = image_mset ((!) s) (mset_set used')"
    "set [0..<length s] \<subseteq> used'" "used' \<subseteq> {..<length s}" by auto
  then have "used' = {0..<length s}" by auto
  then have "image_mset ((!) s) (mset_set used') = mset (map ((!) s) [0..<length s])"
    by simp
  also have "\<dots> = mset s" by (simp add: map_nth)
  finally show ?thesis using u(1) by simp
qed

text \<open>
  Claim C5. The groups returned by \<open>groupTextElements\<close> partition the input: taken
  together they hold every input element exactly as often as the input does (so each
  element is in exactly one group and none is left out), no group is empty, an empty
  input gives no group, and a single element gives one group of that element.
\<close>

theorem groupTextElements_partition:
  "mset (concat (groupTextElements elements config)) = mset elements \<and>
   [] \<notin> set (groupTextElements elements config) \<and>
   groupTextElements [] config = [] \<and>
   groupTextElements [e] config = [[e]]"
proof (intro conjI)
  show "mset (concat (groupTextElements elements config)) = mset elements"
    by (simp add: groupTextElements_def Let_def groupLoop_all mset_js_sort)
  show "[] \<notin> set (groupTextElements elements config)"
    by (simp add: groupTextElements_def Let_def groupLoop_nonempty)
  show "groupTextElements [] config = []"
    by (simp add: groupTextElements_def)
  show "groupTextElements [e] config = [[e]]"
    by (simp add: groupTextElements_def Let_def js_sort_def scanUngrouped_def)
qed

theorem groupTextElements_partition_witness:
  "mset (concat (groupTextElements
      [element 65 0 0 50 20, element 66 40 2 50 20, element 67 0 200 50 20] DEFAULT_GROUPING))
     = mset [element 65 0 0 50 20, element 66 40 2 50 20, element 67 0 200 50 20] \<and>
   [] \<notin> set (groupTextElements
      [element 65 0 0 50 20, element 66 40 2 50 20, element 67 0 200 50 20] DEFAULT_GROUPING)"
  using groupTextElements_partition [of
      "[element 65 0 0 50 20, element 66 40 2 50 20, element 67 0 200 50 20]" DEFAULT_GROUPING]
  by simp

text \<open>
  Claim C3. With the default config the elements with frames
  \<open>{left:0, top:0, width:50, height:20}\<close> and \<open>{left:60, top:2, width:50, height:20}\<close> are
  placed into two separate groups: they are on one line, but the horizontal gap is
  measured between the centres (60) and is not below \<open>avgHeight * 2.5 = 50\<close>. With the
  second element moved right so that the edges are \<open>avgHeight * 3 = 60\<close> apart
  (\<open>left:110\<close>) they are placed into two separate groups as well.
\<close>

theorem default_grouping_of_spec_pair:
  "groupTextElements
     [\<lparr> el_text = t1, el_confidence = c1,
        el_frame = \<lparr> box_left = 0, box_top = 0, box_width = 50, box_height = 20 \<rparr>,
        el_box = p1 \<rparr>,
      \<lparr> el_text = t2, el_confidence = c2,
        el_frame = \<lparr> box_left = 60, box_top = 2, box_width = 50, box_height = 20 \<rparr>,
        el_box = p2 \<rparr>] DEFAULT_GROUPING =
     [[\<lparr> el_text = t1, el_confidence = c1,
         el_frame = \<lparr> box_left = 0, box_top = 0, box_width = 50, box_height = 20 \<rparr>,
         el_box = p1 \<rparr>],
      [\<lparr> el_text = t2, el_confidence = c2,
         el_frame = \<lparr> box_left = 60, box_top = 2, box_width = 50, box_height = 20 \<rparr>,
         el_box = p2 \<rparr>]] \<and>
   groupTextElements
     [\<lparr> el_text = t1, el_confidence = c1,
        el_frame = \<lparr> box_left = 0, box_top = 0, box_width = 50, box_height = 20 \<rparr>,
        el_box = p1 \<rparr>,
      \<lparr> el_text = t2, el_confidence = c2,
        el_frame = \<lparr> box_left = 110, box_top = 2, box_width = 50, box_height = 20 \<rparr>,
        el_box = p2 \<rparr>] DEFAULT_GROUPING =
     [[\<lparr> el_text = t1, el_confidence = c1,
         el_frame = \<lparr> box_left = 0, box_top = 0, box_width = 50, box_height = 20 \<rparr>,
         el_box = p1 \<rparr>],
      [\<lparr> el_text = t2, el_confidence = c2,
         el_frame = \<lparr> box_left = 110, box_top = 2, box_width = 50, box_height = 20 \<rparr>,
         el_box = p2 \<rparr>]]"
  by (simp add: groupTextElements_def avgHeightOf_def js_sort_def compareReadingOrder_def
      scanUngrouped_def memberAccepts_def shouldGroup_def areOnSameLine_def
      boxesOverlapVertically_def calculateDistance_def js_div_def DEFAULT_GROUPING_def Let_def)

theorem default_grouping_merge_counterexample:
  "length (groupTextElements [element 65 0 0 50 20, element 66 60 2 50 20] DEFAULT_GROUPING)
     \<noteq> 1 \<and>
   areOnSameLine (el_frame (element 65 0 0 50 20)) (el_frame (element 66 60 2 50 20))
     DEFAULT_GROUPING \<and>
   \<not> horizontal (calculateDistance (el_frame (element 65 0 0 50 20))
        (el_frame (element 66 60 2 50 20)))
      < avgHeightOf [element 65 0 0 50 20, element 66 60 2 50 20]
          * HORIZONTAL_THRESHOLD_RATIO DEFAULT_GROUPING"
  by (simp add: groupTextElements_def avgHeightOf_def js_sort_def compareReadingOrder_def
      element_def scanUngrouped_def memberAccepts_def shouldGroup_def areOnSameLine_def
      boxesOverlapVertically_def calculateDistance_def js_div_def DEFAULT_GROUPING_def Let_def)

theorem default_grouping_of_spec_pair_witness:
  "groupTextElements [element 65 0 0 50 20, element 66 60 2 50 20] DEFAULT_GROUPING =
     [[element 65 0 0 50 20], [element 66 60 2 50 20]]"
  using default_grouping_of_spec_pair [of "[65]" "Num 1" "[(0, 0), (50, 0), (50, 20), (0, 20)]"
      "[66]" "Num 1" "[(60, 2), (110, 2), (110, 22), (60, 22)]"]
  by (simp add: element_def)

section \<open>The sequence decoder\<close>

text \<open>The loop of \<open>decode\<close> appends, for the surviving timesteps from \<open>idx\<close> on and in
  their order, the dictionary entry to \<open>charList\<close> and the probability to \<open>confList\<close>.\<close>

lemma decodeLoop_filter:
  "idx \<le> length textIndex \<Longrightarrow>
   decodeLoop self textIndex textProb idx (charList, confList) =
     (charList @ map (\<lambda>i. the (js_index (dictionary self) (textIndex ! i - 1)))
                  (filter (survives self textIndex) [idx..<length textIndex]),
      confList @ map (\<lambda>i. js_index textProb (int i))
                  (filter (survives self textIndex) [idx..<length textIndex]))"
proof (induction self textIndex textProb idx "(charList, confList)"
    arbitrary: charList confList rule: decodeLoop.induct)
  case (1 self textIndex textProb idx charList confList)
  show ?case
  proof (cases "idx < length textIndex")
    case False
    with "1.prems" show ?thesis by (subst decodeLoop.simps) simp
  next
    case True
    then have upt: "[idx..<length textIndex] = idx # [idx + 1..<length textIndex]"
      by (simp add: upt_conv_Cons)
    have le: "idx + 1 \<le> length textIndex" using True by simp
    show ?thesis
    proof (cases "survives self textIndex idx")
      case True
      then obtain char where c: "js_index (dictionary self) (textIndex ! idx - 1) = Some char"
        "char \<noteq> []" "textIndex ! idx \<notin> set IGNORED_TOKENS"
        "\<not> (removeDuplicateChars self \<and> 0 < idx \<and> textIndex ! (idx - 1) = textIndex ! idx)"
        by (auto simp: survives_def split: option.splits)
      have "decodeLoop self textIndex textProb idx (charList, confList) =
            decodeLoop self textIndex textProb (idx + 1)
              (charList @ [char], confList @ [js_index textProb (int idx)])"
        using \<open>idx < length textIndex\<close> c by (subst decodeLoop.simps) auto
      also have "\<dots> = ((charList @ [char]) @ map (\<lambda>i. the (js_index (dictionary self) (textIndex ! i - 1)))
                  (filter (survives self textIndex) [idx + 1..<length textIndex]),
           (confList @ [js_index textProb (int idx)]) @ map (\<lambda>i. js_index textProb (int i))
                  (filter (survives self textIndex) [idx + 1..<length textIndex]))"
        using \<open>idx < length textIndex\<close> c le by (intro "1.hyps"(4)) auto
      finally show ?thesis using True c upt by simp
    next
      case False
      have "decodeLoop self textIndex textProb idx (charList, confList) =
            decodeLoop self textIndex textProb (idx + 1) (charList, confList)"
        using \<open>idx < length textIndex\<close> False
        by (subst decodeLoop.simps) (auto simp: survives_def split: option.splits)
      also have "\<dots> = (charList @ map (\<lambda>i. the (js_index (dictionary self) (textIndex ! i - 1)))
                  (filter (survives self textIndex) [idx + 1..<length textIndex]),
           confList @ map (\<lambda>i. js_index textProb (int i))
                  (filter (survives self textIndex) [idx + 1..<length textIndex]))"
      proof (cases "textIndex ! idx \<in> set IGNORED_TOKENS")
        case True
        with \<open>idx < length textIndex\<close> le show ?thesis by (intro "1.hyps"(1)) auto
      next
        case ni: False
        show ?thesis
        proof (cases "removeDuplicateChars self \<and> idx > 0 \<and> textIndex ! (idx - 1) = textIndex ! idx")
          case True
          with ni \<open>idx < length textIndex\<close> le show ?thesis by (intro "1.hyps"(2)) auto
        next
          case nd: False
          show ?thesis
          proof (cases "js_index (dictionary self) (textIndex ! idx - 1)")
            case None
            with ni nd \<open>idx < length textIndex\<close> le show ?thesis by (intro "1.hyps"(3)) auto
          next
            case (Some char)
            with False ni nd have "char = []" by (auto simp: survives_def)
            with Some ni nd \<open>idx < length textIndex\<close> le show ?thesis by (intro "1.hyps"(5)) auto
          qed
        qed
      qed
      finally show ?thesis using False upt by simp
    qed
  qed
qed

lemma decodeLoop_survivors:
  "decodeLoop self textIndex textProb 0 ([], []) =
     (map (\<lambda>i. the (js_index (dictionary self) (textIndex ! i - 1))) (survivors self textIndex),
      map (\<lambda>i. js_index textProb (int i)) (survivors self textIndex))"
  using decodeLoop_filter [of 0 textIndex self textProb "[]" "[]"]
  by (simp add: survivors_def)

lemma survivors_iff:
  "idx \<in> set (survivors self textIndex) \<longleftrightarrow>
     idx < length textIndex \<and> survives self textIndex idx"
  by (auto simp: survivors_def)

lemma those_map_Some: "those (map Some xs) = Some xs"
  by (induction xs) simp_all

lemma foldl_plus_start: "foldl (+) (a::real) xs = a + sum_list xs"
  by (induction xs arbitrary: a) simp_all

lemma meanOf_Nil: "meanOf [] = Num 0"
  by (simp add: meanOf_def)

lemma meanOf_defined:
  "probs \<noteq> [] \<Longrightarrow> meanOf (map Some probs) = Num (sum_list probs / real (length probs))"
  by (cases probs) (simp_all add: meanOf_def those_map_Some foldl_plus_start js_div_def)

lemma decode_survivors:
  "decode self textIndex textProb =
     \<lparr> line_text = trim (collapseWhitespace (removeCarriageReturns (concat
         (map (\<lambda>i. the (js_index (dictionary self) (textIndex ! i - 1)))
            (survivors self textIndex))))),
       line_mean = meanOf (map (\<lambda>i. js_index textProb (int i)) (survivors self textIndex)) \<rparr>"
  by (simp add: decode_def decodeLoop_survivors)

lemma survivors_all_ignored:
  assumes "\<forall>idx < length textIndex. textIndex ! idx \<in> set IGNORED_TOKENS"
  shows "survivors self textIndex = []"
  using assms by (auto simp: survivors_def survives_def filter_empty_conv)

lemma survivor_probs:
  assumes "length textProb = length textIndex"
  shows "map (\<lambda>i. js_index textProb (int i)) (survivors self textIndex) =
         map Some (map (\<lambda>i. textProb ! i) (survivors self textIndex))"
  using assms by (auto simp: survivors_def js_index_def)

text \<open>A tensor of one batch gives one line.\<close>

lemma is_batch1D:
  assumes "is_batch1 output"
  obtains T V where "tensor_dims output = [1, T, V]" "0 < T" "0 < V"
    "length (tensor_data output) = T * V"
  using assms unfolding is_batch1_def
  by (auto split: list.splits)

lemma decodeText_batch1:
  assumes "is_batch1 output"
  shows "decodeText self output = Some [decodeSingle self output]"
proof -
  from assms obtain T V where tv: "tensor_dims output = [1, T, V]" "0 < T" "0 < V"
    "length (tensor_data output) = T * V" by (rule is_batch1D)
  then have pos: "0 < V * T" by simp
  let ?line = "decode self (map fst (predsOf (tensor_data output) V T 0))
                 (map snd (predsOf (tensor_data output) V T 0))"
  have "decodeText self output = decodeTextLoop self (tensor_data output) V T 0 []"
    using tv by (simp add: decodeText_def js_index_def mult.commute)
  also have "\<dots> = decodeTextLoop self (tensor_data output) V T (- int (V * T)) [?line]"
    by (subst decodeTextLoop.simps) simp
  also have "\<dots> = Some [?line]"
  proof -
    have "\<not> 0 \<le> - int (V * T)" using pos by linarith
    then show ?thesis by (subst decodeTextLoop.simps) (simp only: if_False)
  qed
  finally show ?thesis using tv by (simp add: decodeSingle_def)
qed

text \<open>
  Claim C2. With \<open>removeDuplicateChars\<close> enabled, a timestep that is not ignored is
  dropped as a duplicate exactly when its class equals the class of the timestep
  immediately before it in the sequence, whether or not that timestep was dropped
  itself. An ignored timestep between two equal classes therefore separates them:
  the classes \<open>[5, 0, 5]\<close> with class 0 ignored decode to two characters.
\<close>

theorem decode_duplicates_previous_timestep:
  "decodeLoop self textIndex textProb 0 ([], []) =
     (map (\<lambda>i. the (js_index (dictionary self) (textIndex ! i - 1))) (survivors self textIndex),
      map (\<lambda>i. js_index textProb (int i)) (survivors self textIndex)) \<and>
   (idx \<in> set (survivors self textIndex) \<longleftrightarrow>
      idx < length textIndex \<and> textIndex ! idx \<notin> set IGNORED_TOKENS \<and>
      \<not> (removeDuplicateChars self \<and> 0 < idx \<and> textIndex ! (idx - 1) = textIndex ! idx) \<and>
      (\<exists>char. js_index (dictionary self) (textIndex ! idx - 1) = Some char \<and> char \<noteq> []))"
  by (auto simp: decodeLoop_survivors survivors_iff survives_def split: option.splits)

theorem decode_nonadjacent_duplicate_counterexample:
  "fst (decodeLoop sampleRecognition [5, 0, 5] [0.9, 0.8, 0.7] 0 ([], [])) = [[65], [65]] \<and>
   line_text (decode sampleRecognition [5, 0, 5] [0.9, 0.8, 0.7]) = [65, 65] \<and>
   length (line_text (decode sampleRecognition [5, 0, 5] [0.9, 0.8, 0.7])) \<noteq> 1"
  by (simp add: decode_def decodeLoop.simps sampleRecognition_def IGNORED_TOKENS_def js_index_def trim_def
      removeCarriageReturns_def is_whitespace_def)

theorem decode_duplicates_previous_timestep_witness:
  "decodeLoop sampleRecognition [5, 0, 5] [0.9, 0.8, 0.7] 0 ([], []) = ([[65], [65]], [Some 0.9, Some 0.7]) \<and>
   2 \<in> set (survivors sampleRecognition [5, 0, 5])"
  using decode_duplicates_previous_timestep [of sampleRecognition "[5, 0, 5]" "[0.9, 0.8, 0.7]" 2]
  by (simp add: survivors_def survives_def sampleRecognition_def IGNORED_TOKENS_def js_index_def)

text \<open>
  Claim C8. When the class of every timestep is ignored, \<open>decode\<close> returns the
  empty text and the mean 0, and so does \<open>decodeText\<close> on a tensor of one batch whose
  class of greatest probability is ignored at every timestep. In general the mean is
  0 when no timestep survives, and otherwise (the probabilities being as many as the
  classes) the sum of the surviving timesteps' probabilities over their number.
\<close>

theorem decode_blank_and_mean:
  "((\<forall>idx < length textIndex. textIndex ! idx \<in> set IGNORED_TOKENS) \<longrightarrow>
      decode self textIndex textProb = \<lparr> line_text = [], line_mean = Num 0 \<rparr>) \<and>
   (is_batch1 output \<and>
    (\<forall>p \<in> set (predsOf (tensor_data output) (tensor_dims output ! 2) (tensor_dims output ! 1) 0).
       fst p \<in> set IGNORED_TOKENS) \<longrightarrow>
      decodeText self output = Some [\<lparr> line_text = [], line_mean = Num 0 \<rparr>]) \<and>
   (survivors self textIndex = [] \<longrightarrow>
      decode self textIndex textProb = \<lparr> line_text = [], line_mean = Num 0 \<rparr>) \<and>
   (survivors self textIndex \<noteq> [] \<and> length textProb = length textIndex \<longrightarrow>
      line_mean (decode self textIndex textProb) =
        Num (sum_list (map (\<lambda>i. textProb ! i) (survivors self textIndex))
             / real (length (survivors self textIndex))))"
proof (intro conjI impI)
  assume "\<forall>idx < length textIndex. textIndex ! idx \<in> set IGNORED_TOKENS"
  then have "survivors self textIndex = []" by (rule survivors_all_ignored)
  then show "decode self textIndex textProb = \<lparr> line_text = [], line_mean = Num 0 \<rparr>"
    by (simp add: decode_survivors meanOf_Nil trim_def removeCarriageReturns_def)
next
  let ?preds = "predsOf (tensor_data output) (tensor_dims output ! 2) (tensor_dims output ! 1) 0"
  assume a: "is_batch1 output \<and> (\<forall>p \<in> set ?preds. fst p \<in> set IGNORED_TOKENS)"
  then have "\<forall>idx < length (map fst ?preds). map fst ?preds ! idx \<in> set IGNORED_TOKENS"
    by simp
  then have "survivors self (map fst ?preds) = []" by (rule survivors_all_ignored)
  then have "decodeSingle self output = \<lparr> line_text = [], line_mean = Num 0 \<rparr>"
    by (simp add: decodeSingle_def decode_survivors meanOf_Nil trim_def removeCarriageReturns_def)
  with a show "decodeText self output = Some [\<lparr> line_text = [], line_mean = Num 0 \<rparr>]"
    by (simp add: decodeText_batch1)
next
  assume "survivors self textIndex = []"
  then show "decode self textIndex textProb = \<lparr> line_text = [], line_mean = Num 0 \<rparr>"
    by (simp add: decode_survivors meanOf_Nil trim_def removeCarriageReturns_def)
next
  assume a: "survivors self textIndex \<noteq> [] \<and> length textProb = length textIndex"
  then have "map (\<lambda>i. textProb ! i) (survivors self textIndex) \<noteq> []" by simp
  from meanOf_defined [OF this] a
  show "line_mean (decode self textIndex textProb) =
        Num (sum_list (map (\<lambda>i. textProb ! i) (survivors self textIndex))
             / real (length (survivors self textIndex)))"
    by (simp add: decode_survivors survivor_probs)
qed

theorem decode_blank_and_mean_witness:
  "decode sampleRecognition [0, 0, 0] [0.9, 0.8, 0.7] = \<lparr> line_text = [], line_mean = Num 0 \<rparr> \<and>
   decodeText sampleRecognition sampleTensorBlank = Some [\<lparr> line_text = [], line_mean = Num 0 \<rparr>] \<and>
   line_mean (decode sampleRecognition [5, 0, 5] [0.9, 0.8, 0.7]) = Num 0.8"
  using decode_blank_and_mean [of "[0, 0, 0]" sampleRecognition "[0.9, 0.8, 0.7]" sampleTensorBlank]
    decode_blank_and_mean [of "[5, 0, 5]" sampleRecognition "[0.9, 0.8, 0.7]" sampleTensorBlank]
  by (simp add: survivors_def survives_def sampleRecognition_def IGNORED_TOKENS_def js_index_def
      less_Suc_eq sampleTensorBlank_def is_batch1_def predsOf_def timestepStarts_def
      argmaxAt_def slice_def upt_rec)

lemma survives_blanked:
  assumes "k < length textIndex"
    and "\<not> (0 \<le> textIndex ! k - 1 \<and> textIndex ! k - 1 < int (length (dictionary self)))"
    and "i < length textIndex"
  shows "survives self (textIndex[k := 0]) i = survives self textIndex i"
proof -
  have none: "js_index (dictionary self) (textIndex ! k - 1) = None"
    using assms(2) by (simp add: js_index_def)
  consider "i = k" | "i \<noteq> k" "i - 1 = k" "0 < i" | "i \<noteq> k" "i - 1 \<noteq> k \<or> i = 0" by linarith
  then show ?thesis
  proof cases
    case 1
    with assms none show ?thesis by (simp add: survives_def IGNORED_TOKENS_def)
  next
    case 2
    with assms none show ?thesis
      by (auto simp: survives_def IGNORED_TOKENS_def split: option.splits)
  next
    case 3
    with assms show ?thesis
      by (auto simp: survives_def IGNORED_TOKENS_def split: option.splits)
  qed
qed

text \<open>
  Claim C9. A timestep \<open>k\<close> whose class \<open>c\<close> has its dictionary position \<open>c - 1\<close>
  outside the dictionary is skipped: it is not among the surviving timesteps, the
  characters and the confidences come from the other timesteps only, and the result
  is the \<open>{text, mean}\<close> that the same sequence gives with the ignored class 0 at \<open>k\<close>.
  The read \<open>dictionary[c - 1]\<close> is \<open>undefined\<close> there and nothing is thrown: \<open>decode\<close> has
  no failing branch.
\<close>

theorem decode_skips_out_of_range:
  assumes "k < length textIndex"
    and "\<not> (0 \<le> textIndex ! k - 1 \<and> textIndex ! k - 1 < int (length (dictionary self)))"
  shows "k \<notin> set (survivors self textIndex) \<and>
     decodeLoop self textIndex textProb 0 ([], []) =
       (map (\<lambda>i. the (js_index (dictionary self) (textIndex ! i - 1)))
          (filter (\<lambda>i. i \<noteq> k) (survivors self textIndex)),
        map (\<lambda>i. js_index textProb (int i)) (filter (\<lambda>i. i \<noteq> k) (survivors self textIndex))) \<and>
     decode self (textIndex[k := 0]) textProb = decode self textIndex textProb"
proof (intro conjI)
  have none: "js_index (dictionary self) (textIndex ! k - 1) = None"
    using assms(2) by (simp add: js_index_def)
  then show notin: "k \<notin> set (survivors self textIndex)"
    by (simp add: survivors_iff survives_def)
  then have "filter (\<lambda>i. i \<noteq> k) (survivors self textIndex) = survivors self textIndex"
    by (auto simp: filter_id_conv)
  then show "decodeLoop self textIndex textProb 0 ([], []) =
       (map (\<lambda>i. the (js_index (dictionary self) (textIndex ! i - 1)))
          (filter (\<lambda>i. i \<noteq> k) (survivors self textIndex)),
        map (\<lambda>i. js_index textProb (int i)) (filter (\<lambda>i. i \<noteq> k) (survivors self textIndex)))"
    by (simp add: decodeLoop_survivors)
  have same: "survivors self (textIndex[k := 0]) = survivors self textIndex"
    unfolding survivors_def using survives_blanked [OF assms]
    by (auto intro: filter_cong)
  have chars: "map (\<lambda>i. the (js_index (dictionary self) (textIndex[k := 0] ! i - 1)))
          (survivors self textIndex) =
        map (\<lambda>i. the (js_index (dictionary self) (textIndex ! i - 1)))
          (survivors self textIndex)"
  proof (intro map_cong refl)
    fix i assume "i \<in> set (survivors self textIndex)"
    with notin have "i \<noteq> k" by auto
    then show "the (js_index (dictionary self) (textIndex[k := 0] ! i - 1)) =
               the (js_index (dictionary self) (textIndex ! i - 1))"
      by simp
  qed
  show "decode self (textIndex[k := 0]) textProb = decode self textIndex textProb"
    by (simp only: decode_survivors same chars)
qed

theorem decode_skips_out_of_range_witness:
  "1 \<notin> set (survivors sampleRecognition [5, 99, 7]) \<and>
   decodeLoop sampleRecognition [5, 99, 7] [0.9, 0.8, 0.7] 0 ([], []) = ([[65], [66]], [Some 0.9, Some 0.7]) \<and>
   decode sampleRecognition [5, 0, 7] [0.9, 0.8, 0.7] = decode sampleRecognition [5, 99, 7] [0.9, 0.8, 0.7]"
  using decode_skips_out_of_range [of 1 "[5, 99, 7]" sampleRecognition "[0.9, 0.8, 0.7]"]
  by (simp add: survivors_def survives_def sampleRecognition_def IGNORED_TOKENS_def js_index_def)

section \<open>Recognition of the line images\<close>

lemma runLoop_batch1:
  assumes "\<forall>li \<in> set lineImages. is_batch1 (infer (li_image li))"
  shows "runLoop self infer lineImages allLines =
           Some (rev (map (\<lambda>li. decodeSingle self (infer (li_image li))) lineImages) @ allLines)"
  using assms by (induction lineImages arbitrary: allLines) (simp_all add: decodeText_batch1)

lemma attachBoxes_in_range:
  assumes "\<forall>i \<in> set idxs. i < length allLines" "length allLines \<le> length lineImages"
  shows "attachBoxes lineImages allLines idxs =
           Inr (map (\<lambda>i. \<lparr> rec_text = line_text (allLines ! i), rec_mean = line_mean (allLines ! i),
                          rec_box = li_box (lineImages ! (length allLines - i - 1)) \<rparr>) idxs)"
  using assms
proof (induction idxs)
  case Nil
  then show ?case by simp
next
  case (Cons i idxs)
  then have i: "i < length allLines" by simp
  with Cons.prems(2) have
    "js_index lineImages (int (length allLines) - int i - 1)
       = Some (lineImages ! (length allLines - i - 1))"
    by (auto simp: js_index_def nat_diff_distrib' intro!: arg_cong [where f = "(!) lineImages"])
  with Cons show ?case by simp
qed

lemma runUnfiltered_batch1:
  assumes "\<forall>li \<in> set lineImages. is_batch1 (infer (li_image li))"
  shows "runUnfiltered self infer lineImages =
           Some (Inr (rev (map (recognizedOf self infer) lineImages)))"
proof -
  let ?f = "\<lambda>li. decodeSingle self (infer (li_image li))"
  let ?all = "rev (map ?f lineImages)"
  let ?n = "length lineImages"
  have loop: "runLoop self infer lineImages [] = Some ?all"
    using runLoop_batch1 [OF assms, of self "[]"] by simp
  have att: "attachBoxes lineImages ?all [0..<length ?all] =
           Inr (map (\<lambda>i. \<lparr> rec_text = line_text (?all ! i), rec_mean = line_mean (?all ! i),
                          rec_box = li_box (lineImages ! (length ?all - i - 1)) \<rparr>) [0..<length ?all])"
    by (rule attachBoxes_in_range) simp_all
  have "map (\<lambda>i. \<lparr> rec_text = line_text (?all ! i), rec_mean = line_mean (?all ! i),
                          rec_box = li_box (lineImages ! (length ?all - i - 1)) \<rparr>) [0..<length ?all]
        = rev (map (recognizedOf self infer) lineImages)"
    by (rule nth_equalityI) (simp_all add: rev_nth recognizedOf_def)
  with loop att show ?thesis by (simp add: runUnfiltered_def)
qed

lemma individualElements_rev: "individualElements (rev xs) = rev (individualElements xs)"
  by (simp add: individualElements_def rev_map rev_filter)

text \<open>
  Claim C6. When every line image gives a tensor of one batch, \<open>run\<close> returns,
  and before the final filter its result has one entry per line image: entry \<open>i\<close> holds
  the text and the mean decoded from the tensor of line image \<open>n - 1 - i\<close> together with
  the box of that same line image. Every entry that \<open>run\<close> returns after the filter is
  such a pair of one line image.
\<close>

theorem run_pairs_text_with_box_of_its_crop:
  assumes "\<forall>li \<in> set lineImages. is_batch1 (infer (li_image li))"
  shows "\<exists>xs. runUnfiltered self infer lineImages = Some (Inr xs) \<and>
           length xs = length lineImages \<and>
           (\<forall>i < length lineImages.
              xs ! i =
                \<lparr> rec_text = line_text (decodeSingle self
                     (infer (li_image (lineImages ! (length lineImages - 1 - i))))),
                  rec_mean = line_mean (decodeSingle self
                     (infer (li_image (lineImages ! (length lineImages - 1 - i))))),
                  rec_box = li_box (lineImages ! (length lineImages - 1 - i)) \<rparr>) \<and>
           (\<exists>ys. run self infer lineImages = Some (Inr ys) \<and>
              (\<forall>y \<in> set ys. \<exists>li \<in> set lineImages. y = recognizedOf self infer li))"
proof -
  let ?xs = "rev (map (recognizedOf self infer) lineImages)"
  have run: "runUnfiltered self infer lineImages = Some (Inr ?xs)"
    using assms by (rule runUnfiltered_batch1)
  have nth: "\<forall>i < length lineImages.
      ?xs ! i =
        \<lparr> rec_text = line_text (decodeSingle self
             (infer (li_image (lineImages ! (length lineImages - 1 - i))))),
          rec_mean = line_mean (decodeSingle self
             (infer (li_image (lineImages ! (length lineImages - 1 - i))))),
          rec_box = li_box (lineImages ! (length lineImages - 1 - i)) \<rparr>"
    by (simp add: rev_nth recognizedOf_def)
  let ?ys = "filter (\<lambda>x. js_ge (rec_mean x) (confidenceThreshold self)) ?xs"
  have "run self infer lineImages = Some (Inr ?ys)"
    using run by (simp add: run_def)
  moreover have "\<forall>y \<in> set ?ys. \<exists>li \<in> set lineImages. y = recognizedOf self infer li"
    by auto
  ultimately have "\<exists>ys. run self infer lineImages = Some (Inr ys) \<and>
      (\<forall>y \<in> set ys. \<exists>li \<in> set lineImages. y = recognizedOf self infer li)"
    by blast
  with run nth show ?thesis by simp
qed

theorem run_pairs_text_with_box_of_its_crop_witness:
  "is_batch1 (sampleInfer 0) \<and> is_batch1 (sampleInfer 1) \<and>
   run sampleRecognition sampleInfer sampleCrops =
     Some (Inr [\<lparr> rec_text = [97], rec_mean = Num 0.9,
                  rec_box = [(0, 10), (10, 10), (10, 15), (0, 15)] \<rparr>,
                \<lparr> rec_text = [98, 97], rec_mean = Num 0.75,
                  rec_box = [(0, 0), (10, 0), (10, 5), (0, 5)] \<rparr>])"
proof -
  have b: "\<forall>li \<in> set sampleCrops. is_batch1 (sampleInfer (li_image li))"
    by (simp add: sample_defs is_batch1_def)
  from run_pairs_text_with_box_of_its_crop [OF b, of sampleRecognition]
  obtain xs where xs: "runUnfiltered sampleRecognition sampleInfer sampleCrops = Some (Inr xs)"
    "length xs = length sampleCrops"
    "\<forall>i < length sampleCrops.
       xs ! i = \<lparr> rec_text = line_text (decodeSingle sampleRecognition
                     (sampleInfer (li_image (sampleCrops ! (length sampleCrops - 1 - i))))),
                  rec_mean = line_mean (decodeSingle sampleRecognition
                     (sampleInfer (li_image (sampleCrops ! (length sampleCrops - 1 - i))))),
                  rec_box = li_box (sampleCrops ! (length sampleCrops - 1 - i)) \<rparr>"
    by blast
  from xs(2) obtain x0 x1 where l: "xs = [x0, x1]"
    by (auto simp: sampleCrops_def length_Suc_conv)
  from xs(3) have "xs ! 0 = \<lparr> rec_text = [97], rec_mean = Num 0.9,
                  rec_box = [(0, 10), (10, 10), (10, 15), (0, 15)] \<rparr>"
    and "xs ! 1 = \<lparr> rec_text = [98, 97], rec_mean = Num 0.75,
                  rec_box = [(0, 0), (10, 0), (10, 5), (0, 5)] \<rparr>"
    by (simp_all add: sample_defs eval_defs)
  with l xs(1) show ?thesis
    by (simp add: run_def sample_defs is_batch1_def)
qed

text \<open>
  Claim C10. When every line image gives a tensor of one batch, the result of
  \<open>run\<close> before the final filter is the list of decoded line images in reverse order,
  and the \<open>data\<close> of \<open>Ocr.detect\<close> is the reverse of the elements made from the line
  images, in the order of the detection stage, that pass the confidence filter and
  have a text that is not blank.
\<close>

theorem run_reverses_crop_order:
  assumes "\<forall>li \<in> set lineImages. is_batch1 (infer (li_image li))"
  shows "runUnfiltered self infer lineImages =
           Some (Inr (rev (map (recognizedOf self infer) lineImages))) \<and>
         detectData self infer lineImages =
           Some (Inr (rev (individualElements
             (filter (\<lambda>x. js_ge (rec_mean x) (confidenceThreshold self))
                (map (recognizedOf self infer) lineImages)))))"
proof -
  let ?keep = "\<lambda>x. js_ge (rec_mean x) (confidenceThreshold self)"
  let ?xs = "map (recognizedOf self infer) lineImages"
  have run: "runUnfiltered self infer lineImages = Some (Inr (rev ?xs))"
    using assms by (rule runUnfiltered_batch1)
  have "individualElements (filter ?keep (rev ?xs)) = rev (individualElements (filter ?keep ?xs))"
    by (simp only: rev_filter [symmetric] individualElements_rev)
  with run show ?thesis by (simp add: detectData_def run_def)
qed

theorem run_reverses_crop_order_witness:
  "runUnfiltered sampleRecognition sampleInfer sampleCrops =
     Some (Inr [\<lparr> rec_text = [97], rec_mean = Num 0.9,
                  rec_box = [(0, 10), (10, 10), (10, 15), (0, 15)] \<rparr>,
                \<lparr> rec_text = [98, 97], rec_mean = Num 0.75,
                  rec_box = [(0, 0), (10, 0), (10, 5), (0, 5)] \<rparr>]) \<and>
   detectData sampleRecognition sampleInfer sampleCrops =
     Some (Inr [\<lparr> el_text = [97], el_confidence = Num 0.9,
                  el_frame = \<lparr> box_left = 0, box_top = 10, box_width = 10, box_height = 5 \<rparr>,
                  el_box = [(0, 10), (10, 10), (10, 15), (0, 15)] \<rparr>,
                \<lparr> el_text = [98, 97], el_confidence = Num 0.75,
                  el_frame = \<lparr> box_left = 0, box_top = 0, box_width = 10, box_height = 5 \<rparr>,
                  el_box = [(0, 0), (10, 0), (10, 5), (0, 5)] \<rparr>])"
  using run_reverses_crop_order [of sampleCrops sampleInfer sampleRecognition]
  by (simp add: sample_defs eval_defs individualElements_def extractFrameFromBox_def
      Math_round_def)

section \<open>The unclip step\<close>

lemma polygonPolygonLength_quad:
  "polygonPolygonLength [p0, p1, p2, p3] =
     sqrt ((fst p1 - fst p0)\<^sup>2 + (snd p1 - snd p0)\<^sup>2)
   + sqrt ((fst p2 - fst p1)\<^sup>2 + (snd p2 - snd p1)\<^sup>2)
   + sqrt ((fst p3 - fst p2)\<^sup>2 + (snd p3 - snd p2)\<^sup>2)
   + sqrt ((fst p0 - fst p3)\<^sup>2 + (snd p0 - snd p3)\<^sup>2)"
  by (simp add: polygonPolygonLength_def upt_rec Let_def)

lemma length4E:
  assumes "length xs = 4"
  obtains a b c d where "xs = [a, b, c, d]"
  using assms by (auto simp: length_Suc_conv numeral_eq_Suc)

lemma getMiniBoxes_points:
  "\<exists>q0 q1 q2 q3. mb_points (getMiniBoxes r) = [q0, q1, q2, q3] \<and>
      set [q0, q1, q2, q3] = set (boxPoints r)"
proof -
  let ?pts = "js_sort (\<lambda>a b. fst a - fst b) (boxPoints r)"
  have m: "mset ?pts = mset (boxPoints r)" by (rule mset_js_sort)
  then have "length ?pts = length (boxPoints r)" by (rule mset_eq_length)
  then have "length ?pts = 4" by (simp add: boxPoints_def Let_def)
  then obtain a b c d where p: "?pts = [a, b, c, d]" by (rule length4E)
  from m have s: "set (boxPoints r) = {a, b, c, d}"
    using p by (metis list.simps(15) mset_eq_setD empty_set)
  have mb: "mb_points (getMiniBoxes r) =
      [if snd a < snd b then a else b, if snd c < snd d then c else d,
       if snd c < snd d then d else c, if snd a < snd b then b else a]"
    by (simp add: getMiniBoxes_def Let_def p)
  have "set [if snd a < snd b then a else b, if snd c < snd d then c else d,
       if snd c < snd d then d else c, if snd a < snd b then b else a] = {a, b, c, d}"
    by (simp add: insert_commute)
  with mb s show ?thesis by metis
qed

lemma boxPoints_two_points:
  assumes "0 < size_height r"
  shows "\<exists>p q. p \<in> set (boxPoints r) \<and> q \<in> set (boxPoints r) \<and> p \<noteq> q"
proof -
  let ?t = "angle r * pi / 180"
  have "sin ?t \<noteq> 0 \<or> cos ?t \<noteq> 0"
    using sin_zero_abs_cos_one [of ?t] by fastforce
  then have "sin ?t * 0.5 * size_height r \<noteq> 0 \<or> cos ?t * 0.5 * size_height r \<noteq> 0"
    using assms by auto
  then have "boxPoints r ! 0 \<noteq> boxPoints r ! 1"
    by (auto simp: boxPoints_def Let_def)
  moreover have "boxPoints r ! 0 \<in> set (boxPoints r)" "boxPoints r ! 1 \<in> set (boxPoints r)"
    by (simp_all add: boxPoints_def Let_def)
  ultimately show ?thesis by blast
qed

lemma dist_zero_iff:
  "sqrt ((fst q - fst p)\<^sup>2 + (snd q - snd p)\<^sup>2) = 0 \<longleftrightarrow> p = q"
  by (auto simp: prod_eq_iff)

lemma polygonPolygonLength_quad_pos:
  assumes "\<exists>p q. p \<in> set [q0, q1, q2, q3] \<and> q \<in> set [q0, q1, q2, q3] \<and> p \<noteq> q"
  shows "0 < polygonPolygonLength [q0, q1, q2, q3]"
proof (rule ccontr)
  assume "\<not> 0 < polygonPolygonLength [q0, q1, q2, q3]"
  moreover have "0 \<le> sqrt ((fst q1 - fst q0)\<^sup>2 + (snd q1 - snd q0)\<^sup>2)"
    "0 \<le> sqrt ((fst q2 - fst q1)\<^sup>2 + (snd q2 - snd q1)\<^sup>2)"
    "0 \<le> sqrt ((fst q3 - fst q2)\<^sup>2 + (snd q3 - snd q2)\<^sup>2)"
    "0 \<le> sqrt ((fst q0 - fst q3)\<^sup>2 + (snd q0 - snd q3)\<^sup>2)"
    by simp_all
  ultimately have "sqrt ((fst q1 - fst q0)\<^sup>2 + (snd q1 - snd q0)\<^sup>2) = 0"
    "sqrt ((fst q2 - fst q1)\<^sup>2 + (snd q2 - snd q1)\<^sup>2) = 0"
    "sqrt ((fst q3 - fst q2)\<^sup>2 + (snd q3 - snd q2)\<^sup>2) = 0"
    unfolding polygonPolygonLength_quad by linarith+
  then have "q0 = q1" "q1 = q2" "q2 = q3"
    unfolding dist_zero_iff by simp_all
  with assms show False by auto
qed

text \<open>
  Claim C4. \<open>unclip\<close> has no test of its own for a degenerate polygon; the size
  gate before it, \<open>sside < minSize || sside > maxSize\<close>, is what keeps such polygons
  away. When \<open>MIN_BOX_SIZE\<close> is positive (the default is 3), every polygon that passes
  the gate and reaches \<open>unclip\<close> has a positive perimeter, so the offset distance is the
  finite number \<open>area * unclipRatio / perimeter\<close>.
\<close>

theorem unclip_divides_by_positive_perimeter:
  assumes "0 < minSize self"
    and "unclipStep self offsetExecute boundingBox = Some (distance, clipBox)"
  shows "0 < polygonPolygonLength (mb_points (getMiniBoxes boundingBox)) \<and>
     distance = Num (\<bar>polygonPolygonArea (mb_points (getMiniBoxes boundingBox))\<bar> * unclipRatio self
                     / polygonPolygonLength (mb_points (getMiniBoxes boundingBox)))"
proof -
  from assms(2) have gate: "\<not> mb_sside (getMiniBoxes boundingBox) < minSize self"
    and d: "distance = unclipDistance (mb_points (getMiniBoxes boundingBox)) (unclipRatio self)"
    by (auto simp: unclipStep_def Let_def split: if_splits)
  have "mb_sside (getMiniBoxes boundingBox) = min (size_height boundingBox) (size_width boundingBox)"
    by (simp add: getMiniBoxes_def Let_def split: prod.splits)
  with gate assms(1) have "0 < size_height boundingBox" by simp
  then have two: "\<exists>p q. p \<in> set (boxPoints boundingBox) \<and> q \<in> set (boxPoints boundingBox) \<and> p \<noteq> q"
    by (rule boxPoints_two_points)
  obtain q0 q1 q2 q3 where q: "mb_points (getMiniBoxes boundingBox) = [q0, q1, q2, q3]"
    "set [q0, q1, q2, q3] = set (boxPoints boundingBox)"
    using getMiniBoxes_points by blast
  from two have "0 < polygonPolygonLength [q0, q1, q2, q3]"
    unfolding q(2) [symmetric] by (rule polygonPolygonLength_quad_pos)
  then have pos: "0 < polygonPolygonLength (mb_points (getMiniBoxes boundingBox))"
    using q(1) by simp
  with d show ?thesis by (simp add: unclipDistance_def js_div_def Let_def)
qed

text \<open>
  With \<open>minBoxSize: 0\<close> the gate lets the rectangle of a contour of a single point pass
  (size 0 by 0): its four corners coincide, the perimeter is 0 and the offset distance
  is \<open>0 / 0\<close>, that is \<open>NaN\<close>.
\<close>

theorem unclip_zero_perimeter_counterexample:
  "unclipStep \<lparr> minSize = 0, maxSize = 2000, unclipRatio = 1.5 \<rparr> (\<lambda>path distance. [])
     \<lparr> center_x = 5, center_y = 5, size_width = 0, size_height = 0, angle = 0 \<rparr>
     = Some (NaN, []) \<and>
   polygonPolygonLength (mb_points (getMiniBoxes
     \<lparr> center_x = 5, center_y = 5, size_width = 0, size_height = 0, angle = 0 \<rparr>)) = 0"
  by (simp add: unclipStep_def unclip_def getMiniBoxes_def boxPoints_def js_sort_def
      unclipDistance_def polygonPolygonLength_quad polygonPolygonArea_def js_div_def Let_def
      upt_rec)

theorem unclip_divides_by_positive_perimeter_witness:
  "0 < minSize DEFAULT_DETECTION \<and>
   unclipStep DEFAULT_DETECTION (\<lambda>path distance. [])
     \<lparr> center_x = 10, center_y = 10, size_width = 8, size_height = 4, angle = 0 \<rparr>
     = Some (Num 2, []) \<and>
   0 < polygonPolygonLength (mb_points (getMiniBoxes
     \<lparr> center_x = 10, center_y = 10, size_width = 8, size_height = 4, angle = 0 \<rparr>))"
proof -
  have pos: "0 < minSize DEFAULT_DETECTION"
    by (simp add: DEFAULT_DETECTION_def)
  have step: "unclipStep DEFAULT_DETECTION (\<lambda>path distance. [])
     \<lparr> center_x = 10, center_y = 10, size_width = 8, size_height = 4, angle = 0 \<rparr>
     = Some (Num 2, [])"
    by (simp add: unclipStep_def unclip_def getMiniBoxes_def boxPoints_def js_sort_def
        unclipDistance_def polygonPolygonLength_quad polygonPolygonArea_def js_div_def Let_def
        upt_rec DEFAULT_DETECTION_def)
  from unclip_divides_by_positive_perimeter [OF pos step] pos step show ?thesis
    by simp
qed

end
